theory Spec2Isabelle
  imports Main
begin

section \<open>Query-filter helpers of netbox/utilities/filters.py\<close>

text \<open>
  The module is glue over django-filter and the Django ORM. The embedding keeps the module's own
  code as HOL functions and takes what the module calls but does not define (queryset methods,
  the django-filter base classes, form-field classes, tree nodes) as parameters, grouped in
  records. Every Python call may raise and may touch the objects of the ORM, so a computation
  is a function from a world to a result or an exception, paired with the world afterwards.
\<close>

subsection \<open>Python values and exceptions\<close>

text \<open>
  The values that reach the filters: \<open>None\<close>, booleans, integers, decimals (coefficient and
  exponent), strings, lists, and opaque objects (model instances, tree nodes, querysets used as
  values). Tuples and dictionaries are not among the values the filters receive. A string is
  the list of its code points, each below 256 (a \<open>char\<close>); strings with higher code points
  are outside the model.
\<close>

datatype 'o pyval =
    PyNone
  | PyBool bool
  | PyInt int
  | PyDecimal int int
  | PyStr string
  | PyList "'o pyval list"
  | PyObj 'o

datatype error =
    ValidationError
  | ValueError
  | AttributeError
  | TypeError
  | OtherError string

type_synonym ('a, 'w) py = "'w \<Rightarrow> (error + 'a) \<times> 'w"

text \<open>A keyword-argument dictionary, as passed with \<open>**\<close> to a queryset method.\<close>

type_synonym 'o kwargs = "string \<rightharpoonup> 'o pyval"

definition py_return :: "'a \<Rightarrow> ('a, 'w) py" where
  "py_return a = (\<lambda>w. (Inr a, w))"

definition py_raise :: "error \<Rightarrow> ('a, 'w) py" where
  "py_raise e = (\<lambda>w. (Inl e, w))"

text \<open>Sequencing: an exception of the first statement skips the rest.\<close>

definition py_bind :: "('a, 'w) py \<Rightarrow> ('a \<Rightarrow> ('b, 'w) py) \<Rightarrow> ('b, 'w) py" where
  "py_bind m k = (\<lambda>w. case m w of (Inl e, w') \<Rightarrow> (Inl e, w') | (Inr a, w') \<Rightarrow> k a w')"

text \<open>
  \<open>try: m  except exc: h\<close>, continued with \<open>k\<close> on the value of \<open>m\<close> when \<open>m\<close> does not
  raise. The handler runs in the world \<open>m\<close> left behind; any other exception propagates; the
  continuation is outside the \<open>try\<close>.
\<close>

definition py_try_except ::
  "('a, 'w) py \<Rightarrow> error \<Rightarrow> ('b, 'w) py \<Rightarrow> ('a \<Rightarrow> ('b, 'w) py) \<Rightarrow> ('b, 'w) py" where
  "py_try_except m exc h k =
     (\<lambda>w. case m w of
        (Inl e, w') \<Rightarrow> if e = exc then h w' else (Inl e, w')
      | (Inr a, w') \<Rightarrow> k a w')"

text \<open>A call that cannot raise.\<close>

definition py_total :: "('w \<Rightarrow> 'a \<times> 'w) \<Rightarrow> ('a, 'w) py" where
  "py_total m = (\<lambda>w. case m w of (a, w') \<Rightarrow> (Inr a, w'))"

text \<open>A list comprehension \<open>[f(v) for v in vs]\<close>: left to right, stopping at the first exception.\<close>

fun py_map :: "('a \<Rightarrow> ('b, 'w) py) \<Rightarrow> 'a list \<Rightarrow> ('b list, 'w) py" where
  "py_map f [] = py_return []"
| "py_map f (v # vs) =
     py_bind (f v) (\<lambda>x. py_bind (py_map f vs) (\<lambda>xs. py_return (x # xs)))"

text \<open>A loop \<open>for v in vs: f(v)\<close>.\<close>

fun py_for :: "('a \<Rightarrow> (unit, 'w) py) \<Rightarrow> 'a list \<Rightarrow> (unit, 'w) py" where
  "py_for f [] = py_return ()"
| "py_for f (v # vs) = py_bind (f v) (\<lambda>_. py_for f vs)"

subsection \<open>Opaque objects\<close>

text \<open>
  What an opaque object does when the module tests its truth value, iterates it, or calls
  \<open>get_descendants(include_self=...)\<close> on it (raising \<open>AttributeError\<close> where the object has
  no such method) belongs to its class, outside this module.
\<close>

record ('o, 'w) objects =
  obj_bool :: "'o \<Rightarrow> (bool, 'w) py"
  obj_iter :: "'o \<Rightarrow> ('o pyval list, 'w) py"
  obj_get_descendants :: "'o \<Rightarrow> bool \<Rightarrow> ('o pyval, 'w) py"

text \<open>Truth value testing, \<open>if v:\<close>.\<close>

fun py_bool :: "('o, 'w) objects \<Rightarrow> 'o pyval \<Rightarrow> (bool, 'w) py" where
  "py_bool objs PyNone = py_return False"
| "py_bool objs (PyBool b) = py_return b"
| "py_bool objs (PyInt i) = py_return (i \<noteq> 0)"
| "py_bool objs (PyDecimal c e) = py_return (c \<noteq> 0)"
| "py_bool objs (PyStr s) = py_return (s \<noteq> [])"
| "py_bool objs (PyList xs) = py_return (xs \<noteq> [])"
| "py_bool objs (PyObj x) = obj_bool objs x"

text \<open>Iteration, \<open>for v in value\<close>: a string yields its characters, a number is not iterable.\<close>

fun py_iter :: "('o, 'w) objects \<Rightarrow> 'o pyval \<Rightarrow> ('o pyval list, 'w) py" where
  "py_iter objs (PyList xs) = py_return xs"
| "py_iter objs (PyStr s) = py_return (map (\<lambda>c. PyStr [c]) s)"
| "py_iter objs (PyObj x) = obj_iter objs x"
| "py_iter objs PyNone = py_raise TypeError"
| "py_iter objs (PyBool b) = py_raise TypeError"
| "py_iter objs (PyInt i) = py_raise TypeError"
| "py_iter objs (PyDecimal c e) = py_raise TypeError"

subsection \<open>Strings\<close>

text \<open>
  \<open>str.lower()\<close> on code points below 256 maps each character by itself: the letters
  \<open>A\<close> to \<open>Z\<close> (65 to 90) and the capital letters of Latin-1 (192 to 222 without the
  multiplication sign 215) move up by 32, every other character stays.
\<close>

definition is_upper :: "nat \<Rightarrow> bool" where
  "is_upper n = ((65 \<le> n \<and> n \<le> 90) \<or> (192 \<le> n \<and> n \<le> 214) \<or> (216 \<le> n \<and> n \<le> 222))"

definition lower_char :: "char \<Rightarrow> char" where
  "lower_char c =
     (if is_upper (of_char c) then char_of ((of_char c :: nat) + 32) else c)"

definition str_lower :: "string \<Rightarrow> string" where
  "str_lower s = map lower_char s"

text \<open>\<open>s.split(sep)\<close> for a one-character separator: one more part than separators.\<close>

fun split_acc :: "char \<Rightarrow> string \<Rightarrow> string \<Rightarrow> string list" where
  "split_acc sep acc [] = [rev acc]"
| "split_acc sep acc (c # cs) =
     (if c = sep then rev acc # split_acc sep [] cs else split_acc sep (c # acc) cs)"

definition str_split :: "string \<Rightarrow> char \<Rightarrow> string list" where
  "str_split s sep = split_acc sep [] s"

text \<open>\<open>value.lower()\<close>: only strings have the method.\<close>

fun py_lower :: "'o pyval \<Rightarrow> (string, 'w) py" where
  "py_lower (PyStr s) = py_return (str_lower s)"
| "py_lower v = py_raise AttributeError"

text \<open>Unpacking into two names, \<open>a, b = xs\<close>.\<close>

fun unpack2 :: "'a list \<Rightarrow> ('a \<times> 'a, 'w) py" where
  "unpack2 [a, b] = py_return (a, b)"
| "unpack2 xs = py_raise ValueError"

subsection \<open>The ORM and django-filter\<close>

text \<open>
  Querysets are objects of the ORM, named by references of type \<open>'q\<close>; their methods are
  parameters. \<open>qs.none()\<close> always returns a queryset; \<open>qs.filter(**kwargs)\<close> and
  \<open>qs.distinct()\<close> may raise.
\<close>

record ('o, 'q, 'w) orm =
  qs_none :: "'q \<Rightarrow> 'w \<Rightarrow> 'q \<times> 'w"
  qs_filter :: "'q \<Rightarrow> 'o kwargs \<Rightarrow> ('q, 'w) py"
  qs_distinct :: "'q \<Rightarrow> ('q, 'w) py"

text \<open>
  The attributes of a filter instance: \<open>field_name\<close>, \<open>lookup_expr\<close> and \<open>distinct\<close>, which
  the module reads, and \<open>exclude\<close>, which it reaches through \<open>self.get_method\<close>.
\<close>

record Filter_self =
  field_name :: string
  lookup_expr :: string
  distinct_flag :: bool
  exclude_flag :: bool

text \<open>\<open>django_filters.constants.EMPTY_VALUES = ([], (), {}, '', None)\<close>, and \<open>value in EMPTY_VALUES\<close>.\<close>

definition EMPTY_VALUES :: "'o pyval list" where
  "EMPTY_VALUES = [PyList [], PyStr [], PyNone]"

definition in_EMPTY_VALUES :: "'o pyval \<Rightarrow> bool" where
  "in_EMPTY_VALUES v = (v \<in> set EMPTY_VALUES)"

subsection \<open>ContentTypeFilter\<close>

definition ContentTypeFilter_filter ::
  "('o, 'q, 'w) orm \<Rightarrow> Filter_self \<Rightarrow> 'q \<Rightarrow> 'o pyval \<Rightarrow> ('q, 'w) py" where
  "ContentTypeFilter_filter db self qs v =
     (if in_EMPTY_VALUES v then py_return qs
      else py_try_except
             (py_bind (py_lower v) (\<lambda>s. unpack2 (str_split s (CHR ''.''))))
             ValueError
             (py_total (qs_none db qs))
             (\<lambda>(app_label, model).
                qs_filter db qs
                  [field_name self @ ''__app_label'' \<mapsto> PyStr app_label,
                   field_name self @ ''__model'' \<mapsto> PyStr model]))"

subsection \<open>Settings and the django-filter base classes\<close>

record settings =
  FILTERS_NULL_CHOICE_VALUE :: string

text \<open>
  The methods this module inherits or reaches through \<open>super()\<close> and \<open>self\<close>.
  \<open>MultipleChoiceFilter.filter\<close> calls \<open>self.get_filter_predicate\<close>, which two classes of this
  module override: the method in force is passed as an argument.
\<close>

record ('o, 'q, 'w) django_filters =
  get_method :: "Filter_self \<Rightarrow> 'q \<Rightarrow> 'o kwargs \<Rightarrow> ('q, 'w) py"
  CharFilter_filter :: "Filter_self \<Rightarrow> 'q \<Rightarrow> 'o pyval \<Rightarrow> ('q, 'w) py"
  NumberFilter_filter :: "Filter_self \<Rightarrow> 'q \<Rightarrow> 'o pyval \<Rightarrow> ('q, 'w) py"
  MultipleChoiceFilter_filter ::
    "Filter_self \<Rightarrow> ('o pyval \<Rightarrow> ('o kwargs, 'w) py) \<Rightarrow> 'q \<Rightarrow> 'o pyval \<Rightarrow> ('q, 'w) py"
  MultipleChoiceFilter_get_filter_predicate :: "Filter_self \<Rightarrow> 'o pyval \<Rightarrow> ('o kwargs, 'w) py"
  ModelMultipleChoiceFilter_filter ::
    "Filter_self \<Rightarrow> ('o pyval \<Rightarrow> ('o kwargs, 'w) py) \<Rightarrow> 'q \<Rightarrow> 'o pyval \<Rightarrow> ('q, 'w) py"
  ModelMultipleChoiceFilter_get_filter_predicate ::
    "Filter_self \<Rightarrow> 'o pyval \<Rightarrow> ('o kwargs, 'w) py"

subsection \<open>multivalue_field_factory\<close>

text \<open>
  A form field class: its name, its widget, the call \<open>field_class()\<close> of its constructor
  without arguments (which raises \<open>TypeError\<close> for a class that needs some), and the three
  methods the factory overrides, each taking the instance.
\<close>

record ('c, 'o, 'w) field_class =
  fc_name :: string
  fc_widget :: string
  fc_new :: "('c, 'w) py"
  to_python :: "'c \<Rightarrow> 'o pyval \<Rightarrow> ('o pyval, 'w) py"
  run_validators :: "'c \<Rightarrow> 'o pyval \<Rightarrow> (unit, 'w) py"
  validate :: "'c \<Rightarrow> 'o pyval \<Rightarrow> (unit, 'w) py"

text \<open>The comprehension \<open>[f(v) for v in vs if c(v)]\<close>.\<close>

fun py_map_if ::
  "('a \<Rightarrow> (bool, 'w) py) \<Rightarrow> ('a \<Rightarrow> ('b, 'w) py) \<Rightarrow> 'a list \<Rightarrow> ('b list, 'w) py" where
  "py_map_if c f [] = py_return []"
| "py_map_if c f (v # vs) =
     py_bind (c v) (\<lambda>b.
       if b then py_bind (f v) (\<lambda>x. py_bind (py_map_if c f vs) (\<lambda>xs. py_return (x # xs)))
       else py_map_if c f vs)"

definition NewField_to_python ::
  "('o, 'w) objects \<Rightarrow> ('c, 'o, 'w) field_class \<Rightarrow> 'c \<Rightarrow> 'o pyval \<Rightarrow> ('o pyval, 'w) py" where
  "NewField_to_python objs fc self v =
     py_bind (py_bool objs v) (\<lambda>b.
       if \<not> b then py_return (PyList [])
       else py_bind (fc_new fc) (\<lambda>field.
              py_bind (py_iter objs v) (\<lambda>vs.
                py_bind (py_map_if (py_bool objs) (to_python fc field) vs) (\<lambda>r.
                  py_return (PyList r)))))"

definition NewField_run_validators ::
  "('o, 'w) objects \<Rightarrow> ('c, 'o, 'w) field_class \<Rightarrow> 'c \<Rightarrow> 'o pyval \<Rightarrow> (unit, 'w) py" where
  "NewField_run_validators objs fc self v =
     py_bind (py_iter objs v) (py_for (run_validators fc self))"

definition NewField_validate ::
  "('o, 'w) objects \<Rightarrow> ('c, 'o, 'w) field_class \<Rightarrow> 'c \<Rightarrow> 'o pyval \<Rightarrow> (unit, 'w) py" where
  "NewField_validate objs fc self v =
     py_bind (py_iter objs v) (py_for (validate fc self))"

definition multivalue_field_factory ::
  "('o, 'w) objects \<Rightarrow> ('c, 'o, 'w) field_class \<Rightarrow> ('c, 'o, 'w) field_class" where
  "multivalue_field_factory objs fc =
     \<lparr> fc_name = ''MultiValue'' @ fc_name fc,
       fc_widget = ''SelectMultiple'',
       fc_new = fc_new fc,
       to_python = NewField_to_python objs fc,
       run_validators = NewField_run_validators objs fc,
       validate = NewField_validate objs fc \<rparr>"

subsection \<open>The multi-value filters\<close>

text \<open>Seven classes set \<open>field_class\<close> only and inherit \<open>filter\<close> and \<open>get_filter_predicate\<close>.\<close>

definition inherited_filter ::
  "('o, 'q, 'w) django_filters \<Rightarrow> Filter_self \<Rightarrow> 'q \<Rightarrow> 'o pyval \<Rightarrow> ('q, 'w) py" where
  "inherited_filter df self =
     MultipleChoiceFilter_filter df self (MultipleChoiceFilter_get_filter_predicate df self)"

definition MultiValueCharFilter_filter ::
  "('o, 'q, 'w) django_filters \<Rightarrow> Filter_self \<Rightarrow> 'q \<Rightarrow> 'o pyval \<Rightarrow> ('q, 'w) py" where
  "MultiValueCharFilter_filter = inherited_filter"

definition MultiValueDateFilter_filter ::
  "('o, 'q, 'w) django_filters \<Rightarrow> Filter_self \<Rightarrow> 'q \<Rightarrow> 'o pyval \<Rightarrow> ('q, 'w) py" where
  "MultiValueDateFilter_filter = inherited_filter"

definition MultiValueDateTimeFilter_filter ::
  "('o, 'q, 'w) django_filters \<Rightarrow> Filter_self \<Rightarrow> 'q \<Rightarrow> 'o pyval \<Rightarrow> ('q, 'w) py" where
  "MultiValueDateTimeFilter_filter = inherited_filter"

definition MultiValueNumberFilter_filter ::
  "('o, 'q, 'w) django_filters \<Rightarrow> Filter_self \<Rightarrow> 'q \<Rightarrow> 'o pyval \<Rightarrow> ('q, 'w) py" where
  "MultiValueNumberFilter_filter = inherited_filter"

definition MultiValueDecimalFilter_filter ::
  "('o, 'q, 'w) django_filters \<Rightarrow> Filter_self \<Rightarrow> 'q \<Rightarrow> 'o pyval \<Rightarrow> ('q, 'w) py" where
  "MultiValueDecimalFilter_filter = inherited_filter"

definition MultiValueTimeFilter_filter ::
  "('o, 'q, 'w) django_filters \<Rightarrow> Filter_self \<Rightarrow> 'q \<Rightarrow> 'o pyval \<Rightarrow> ('q, 'w) py" where
  "MultiValueTimeFilter_filter = inherited_filter"

definition MultiValueWWNFilter_filter ::
  "('o, 'q, 'w) django_filters \<Rightarrow> Filter_self \<Rightarrow> 'q \<Rightarrow> 'o pyval \<Rightarrow> ('q, 'w) py" where
  "MultiValueWWNFilter_filter = inherited_filter"

text \<open>
  \<open>MultiValueArrayFilter\<close> overrides the predicate of one value; its \<open>filter\<close> is the inherited
  one, which calls the overriding predicate.
\<close>

definition MultiValueArrayFilter_get_filter_predicate ::
  "('o, 'q, 'w) django_filters \<Rightarrow> Filter_self \<Rightarrow> 'o pyval \<Rightarrow> ('o kwargs, 'w) py" where
  "MultiValueArrayFilter_get_filter_predicate df self v =
     (if v = PyNone then py_return [field_name self \<mapsto> PyNone]
      else MultipleChoiceFilter_get_filter_predicate df self v)"

definition MultiValueArrayFilter_filter ::
  "('o, 'q, 'w) django_filters \<Rightarrow> Filter_self \<Rightarrow> 'q \<Rightarrow> 'o pyval \<Rightarrow> ('q, 'w) py" where
  "MultiValueArrayFilter_filter df self =
     MultipleChoiceFilter_filter df self (MultiValueArrayFilter_get_filter_predicate df self)"

definition MultiValueMACAddressFilter_filter ::
  "('o, 'q, 'w) orm \<Rightarrow> ('o, 'q, 'w) django_filters \<Rightarrow> Filter_self \<Rightarrow> 'q \<Rightarrow> 'o pyval
     \<Rightarrow> ('q, 'w) py" where
  "MultiValueMACAddressFilter_filter db df self qs v =
     py_try_except
       (MultipleChoiceFilter_filter df self (MultipleChoiceFilter_get_filter_predicate df self) qs v)
       ValidationError
       (py_total (qs_none db qs))
       py_return"

subsection \<open>TreeNodeMultipleChoiceFilter\<close>

definition TreeNodeMultipleChoiceFilter_get_filter_predicate ::
  "('o, 'q, 'w) django_filters \<Rightarrow> Filter_self \<Rightarrow> 'o pyval \<Rightarrow> ('o kwargs, 'w) py" where
  "TreeNodeMultipleChoiceFilter_get_filter_predicate df self v =
     (if v = PyNone then py_return [field_name self @ ''__isnull'' \<mapsto> PyBool True]
      else ModelMultipleChoiceFilter_get_filter_predicate df self v)"

text \<open>
  One entry of the comprehension in \<open>filter\<close>:
  \<open>node.get_descendants(include_self=True) if not isinstance(node, str) else node\<close>.
  The values without a \<open>get_descendants\<close> attribute raise \<open>AttributeError\<close>.
\<close>

fun expand_node :: "('o, 'w) objects \<Rightarrow> 'o pyval \<Rightarrow> ('o pyval, 'w) py" where
  "expand_node objs (PyStr s) = py_return (PyStr s)"
| "expand_node objs (PyObj x) = obj_get_descendants objs x True"
| "expand_node objs v = py_raise AttributeError"

definition TreeNodeMultipleChoiceFilter_filter ::
  "('o, 'w) objects \<Rightarrow> ('o, 'q, 'w) django_filters \<Rightarrow> Filter_self \<Rightarrow> 'q \<Rightarrow> 'o pyval
     \<Rightarrow> ('q, 'w) py" where
  "TreeNodeMultipleChoiceFilter_filter objs df self qs v =
     py_bind (py_iter objs v) (\<lambda>nodes.
       py_bind (py_map (expand_node objs) nodes) (\<lambda>expanded.
         ModelMultipleChoiceFilter_filter df self
           (TreeNodeMultipleChoiceFilter_get_filter_predicate df self) qs (PyList expanded)))"

subsection \<open>NullableCharFieldFilter and NumericArrayFilter\<close>

definition NullableCharFieldFilter_filter ::
  "settings \<Rightarrow> ('o, 'q, 'w) orm \<Rightarrow> ('o, 'q, 'w) django_filters \<Rightarrow> Filter_self \<Rightarrow> 'q
     \<Rightarrow> 'o pyval \<Rightarrow> ('q, 'w) py" where
  "NullableCharFieldFilter_filter st db df self qs v =
     (if v \<noteq> PyStr (FILTERS_NULL_CHOICE_VALUE st) then CharFilter_filter df self qs v
      else py_bind (get_method df self qs [field_name self @ ''__isnull'' \<mapsto> PyBool True])
             (\<lambda>qs'. if distinct_flag self then qs_distinct db qs' else py_return qs'))"

definition NumericArrayFilter_filter ::
  "('o, 'w) objects \<Rightarrow> ('o, 'q, 'w) django_filters \<Rightarrow> Filter_self \<Rightarrow> 'q \<Rightarrow> 'o pyval
     \<Rightarrow> ('q, 'w) py" where
  "NumericArrayFilter_filter objs df self qs v =
     py_bind (py_bool objs v) (\<lambda>b.
       NumberFilter_filter df self qs (if b then PyList [v] else v))"

subsection \<open>Querysets as objects: what a call leaves unchanged\<close>

text \<open>
  \<open>look w q\<close> is the content of the queryset object \<open>q\<close> in the world \<open>w\<close>, \<open>None\<close> when there
  is no such object. A computation leaves the querysets unchanged when every queryset object
  that exists before it has the same content after it, whatever it returns or raises.
\<close>

definition unchanged :: "('w \<Rightarrow> 'q \<Rightarrow> 's option) \<Rightarrow> ('a, 'w) py \<Rightarrow> bool" where
  "unchanged look m = (\<forall>w q. look w q \<noteq> None \<longrightarrow> look (snd (m w)) q = look w q)"

text \<open>
  The contract of the ORM, of django-filter and of the objects that the module relies on:
  none of their methods changes an existing queryset.
\<close>

definition nonmutating ::
  "('w \<Rightarrow> 'q \<Rightarrow> 's option) \<Rightarrow> ('o, 'w) objects \<Rightarrow> ('o, 'q, 'w) orm
     \<Rightarrow> ('o, 'q, 'w) django_filters \<Rightarrow> bool" where
  "nonmutating look objs db df =
     ((\<forall>x. unchanged look (obj_bool objs x)) \<and>
      (\<forall>x. unchanged look (obj_iter objs x)) \<and>
      (\<forall>x b. unchanged look (obj_get_descendants objs x b)) \<and>
      (\<forall>q. unchanged look (py_total (qs_none db q))) \<and>
      (\<forall>q kw. unchanged look (qs_filter db q kw)) \<and>
      (\<forall>q. unchanged look (qs_distinct db q)) \<and>
      (\<forall>self q kw. unchanged look (get_method df self q kw)) \<and>
      (\<forall>self q v. unchanged look (CharFilter_filter df self q v)) \<and>
      (\<forall>self q v. unchanged look (NumberFilter_filter df self q v)) \<and>
      (\<forall>self v. unchanged look (MultipleChoiceFilter_get_filter_predicate df self v)) \<and>
      (\<forall>self v. unchanged look (ModelMultipleChoiceFilter_get_filter_predicate df self v)) \<and>
      (\<forall>self p q v. (\<forall>u. unchanged look (p u))
         \<longrightarrow> unchanged look (MultipleChoiceFilter_filter df self p q v)) \<and>
      (\<forall>self p q v. (\<forall>u. unchanged look (p u))
         \<longrightarrow> unchanged look (ModelMultipleChoiceFilter_filter df self p q v)))"

text \<open>
  A computation returns a new queryset when the reference it returns named no queryset before
  the call and names one after it. The ORM's \<open>filter\<close>, \<open>none\<close> and \<open>distinct\<close>, and the
  method \<open>get_method\<close> hands out, return new querysets.
\<close>

definition returns_new :: "('w \<Rightarrow> 'q \<Rightarrow> 's option) \<Rightarrow> ('q, 'w) py \<Rightarrow> bool" where
  "returns_new look m =
     (\<forall>w r w'. m w = (Inr r, w') \<longrightarrow> look w r = None \<and> look w' r \<noteq> None)"

definition allocating ::
  "('w \<Rightarrow> 'q \<Rightarrow> 's option) \<Rightarrow> ('o, 'q, 'w) orm \<Rightarrow> ('o, 'q, 'w) django_filters \<Rightarrow> bool" where
  "allocating look db df =
     ((\<forall>q. returns_new look (py_total (qs_none db q))) \<and>
      (\<forall>q kw. returns_new look (qs_filter db q kw)) \<and>
      (\<forall>q. returns_new look (qs_distinct db q)) \<and>
      (\<forall>self q kw. returns_new look (get_method df self q kw)))"

subsection \<open>An instance of the parameters\<close>

text \<open>
  A small ORM for evaluating the filters on concrete inputs. The world is the list of the
  queryset objects made so far, a reference is an index into it, and every method makes a new
  object that records the call it came from. \<open>get_method\<close> is \<open>qs.exclude\<close> for a filter
  built with \<open>exclude=True\<close> and \<open>qs.filter\<close> otherwise. The base-class filters record the
  value they receive; \<open>MultipleChoiceFilter.filter\<close> rejects the entry \<open>'zz'\<close> with a \<open>ValidationError\<close>,
  as a MAC address column does. Tree nodes are the numbers below 4, each the parent of the next.
\<close>

datatype demo_queryset =
    Base
  | NoneOf nat
  | FilterOf nat "nat kwargs"
  | ExcludeOf nat "nat kwargs"
  | DistinctOf nat
  | SuperOf string nat "nat pyval"
  | AnyOf nat "nat kwargs list"

type_synonym demo_world = "demo_queryset list"

definition demo_new :: "demo_queryset \<Rightarrow> demo_world \<Rightarrow> nat \<times> demo_world" where
  "demo_new s w = (length w, w @ [s])"

definition demo_look :: "demo_world \<Rightarrow> nat \<Rightarrow> demo_queryset option" where
  "demo_look w q = (if q < length w then Some (w ! q) else None)"

definition demo_orm :: "(nat, nat, demo_world) orm" where
  "demo_orm =
     \<lparr> qs_none = (\<lambda>q. demo_new (NoneOf q)),
       qs_filter = (\<lambda>q kw. py_total (demo_new (FilterOf q kw))),
       qs_distinct = (\<lambda>q. py_total (demo_new (DistinctOf q))) \<rparr>"

definition demo_objects :: "(nat, demo_world) objects" where
  "demo_objects =
     \<lparr> obj_bool = (\<lambda>x. py_return True),
       obj_iter = (\<lambda>x. py_raise TypeError),
       obj_get_descendants = (\<lambda>x include_self.
         py_return (PyList (map PyObj (if include_self then [x..<4] else [Suc x..<4])))) \<rparr>"

definition demo_multiple_choice ::
  "string \<Rightarrow> Filter_self \<Rightarrow> (nat pyval \<Rightarrow> (nat kwargs, demo_world) py) \<Rightarrow> nat \<Rightarrow> nat pyval
     \<Rightarrow> (nat, demo_world) py" where
  "demo_multiple_choice name self p q v =
     (if v = PyList [PyStr ''zz''] then py_raise ValidationError
      else py_total (demo_new (SuperOf name q v)))"

definition demo_django_filters :: "(nat, nat, demo_world) django_filters" where
  "demo_django_filters =
     \<lparr> get_method = (\<lambda>self q kw.
         py_total (demo_new (if exclude_flag self then ExcludeOf q kw else FilterOf q kw))),
       CharFilter_filter = (\<lambda>self q v. py_total (demo_new (SuperOf ''CharFilter.filter'' q v))),
       NumberFilter_filter =
         (\<lambda>self q v. py_total (demo_new (SuperOf ''NumberFilter.filter'' q v))),
       MultipleChoiceFilter_filter = demo_multiple_choice ''MultipleChoiceFilter.filter'',
       MultipleChoiceFilter_get_filter_predicate = (\<lambda>self v. py_return [field_name self \<mapsto> v]),
       ModelMultipleChoiceFilter_filter =
         demo_multiple_choice ''ModelMultipleChoiceFilter.filter'',
       ModelMultipleChoiceFilter_get_filter_predicate =
         (\<lambda>self v. py_return [field_name self \<mapsto> v]) \<rparr>"



definition demo_self :: Filter_self where
  "demo_self =
     \<lparr> field_name = ''f'', lookup_expr = ''exact'', distinct_flag = False,
       exclude_flag = False \<rparr>"

definition demo_settings :: settings where
  "demo_settings = \<lparr> FILTERS_NULL_CHOICE_VALUE = ''null'' \<rparr>"

text \<open>A form field class that coerces nothing and rejects the value \<open>'bad'\<close>.\<close>

definition demo_field :: "(unit, nat, demo_world) field_class" where
  "demo_field =
     \<lparr> fc_name = ''CharField'',
       fc_widget = ''TextInput'',
       fc_new = py_return (),
       to_python = (\<lambda>c v. py_return v),
       run_validators = (\<lambda>c v. py_return ()),
       validate = (\<lambda>c v. if v = PyStr ''bad'' then py_raise ValidationError else py_return ()) \<rparr>"

text \<open>The same class with a constructor that needs an argument.\<close>

definition demo_field_with_argument :: "(unit, nat, demo_world) field_class" where
  "demo_field_with_argument = demo_field \<lparr> fc_new := py_raise TypeError \<rparr>"

section \<open>Properties\<close>

subsection \<open>Laws of the computations\<close>

lemma py_bind_return: "py_bind (py_return a) k = k a"
  by (simp add: py_bind_def py_return_def)

lemma py_bind_raise: "py_bind (py_raise e) k = py_raise e"
  by (simp add: py_bind_def py_raise_def)

lemma py_try_except_return: "py_try_except (py_return a) exc h k = k a"
  by (simp add: py_try_except_def py_return_def)

lemma py_try_except_raise:
  "py_try_except (py_raise e) exc h k = (if e = exc then h else py_raise e)"
  by (auto simp add: py_try_except_def py_raise_def)

subsection \<open>Lower-casing and splitting\<close>

lemma split_acc_no_sep: "sep \<notin> set s \<Longrightarrow> split_acc sep acc s = [rev acc @ s]"
  by (induction s arbitrary: acc) auto

lemma lower_char_idem: "lower_char (lower_char c) = lower_char c"
  by (auto simp add: lower_char_def is_upper_def)

lemma str_lower_idem: "str_lower (str_lower s) = str_lower s"
  by (simp add: str_lower_def lower_char_idem)

lemma lower_char_dot: "lower_char c = CHR ''.'' \<longleftrightarrow> c = CHR ''.''"
proof -
  have "char_of ((of_char c :: nat) + 32) \<noteq> CHR ''.''"
    if "is_upper (of_char c)"
  proof
    assume "char_of ((of_char c :: nat) + 32) = CHR ''.''"
    then have "of_char (char_of ((of_char c :: nat) + 32)) = (of_char (CHR ''.'') :: nat)"
      by simp
    then have "((of_char c :: nat) + 32) mod 256 = 46"
      by simp
    moreover from that have "(of_char c :: nat) + 32 < 256" and "14 < (of_char c :: nat)"
      by (auto simp add: is_upper_def)
    ultimately show False by simp
  qed
  moreover have "\<not> is_upper (of_char (CHR ''.''))"
    by (simp add: is_upper_def)
  ultimately show ?thesis
    by (auto simp add: lower_char_def)
qed

lemma str_lower_no_dot: "CHR ''.'' \<notin> set s \<Longrightarrow> CHR ''.'' \<notin> set (str_lower s)"
proof
  assume "CHR ''.'' \<notin> set s" and "CHR ''.'' \<in> set (str_lower s)"
  then obtain c where "c \<in> set s" and "lower_char c = CHR ''.''"
    by (auto simp add: str_lower_def)
  then show False
    using \<open>CHR ''.'' \<notin> set s\<close> by (simp add: lower_char_dot)
qed

lemma str_lower_Nil: "str_lower s = [] \<longleftrightarrow> s = []"
  by (simp add: str_lower_def)

lemma split_dcim_site: "str_split (str_lower ''dcim.site'') (CHR ''.'') = [''dcim'', ''site'']"
  by code_simp

lemma split_DCIM_Site: "str_split (str_lower ''DCIM.Site'') (CHR ''.'') = [''dcim'', ''site'']"
  by code_simp

subsection \<open>ContentTypeFilter\<close>

lemma in_EMPTY_VALUES_PyStr: "in_EMPTY_VALUES (PyStr s) \<longleftrightarrow> s = []"
  by (simp add: in_EMPTY_VALUES_def EMPTY_VALUES_def)

text \<open>On a string the filter is decided by the parts of the lower-cased value.\<close>

lemma ContentTypeFilter_filter_PyStr:
  "ContentTypeFilter_filter db self qs (PyStr s) =
     (if s = [] then py_return qs
      else case str_split (str_lower s) (CHR ''.'') of
             [app_label, model] \<Rightarrow>
               qs_filter db qs
                 [field_name self @ ''__app_label'' \<mapsto> PyStr app_label,
                  field_name self @ ''__model'' \<mapsto> PyStr model]
           | _ \<Rightarrow> py_total (qs_none db qs))"
proof (cases "s = []")
  case True
  then show ?thesis
    by (simp add: ContentTypeFilter_filter_def in_EMPTY_VALUES_PyStr)
next
  case False
  have u: "py_try_except (unpack2 xs) ValueError h k =
           (case xs of [a, b] \<Rightarrow> k (a, b) | _ \<Rightarrow> h)"
    for xs :: "string list" and h :: "('q, 'w) py" and k
    by (cases xs rule: unpack2.cases) (simp_all add: py_try_except_return py_try_except_raise)
  from False show ?thesis
    by (simp add: ContentTypeFilter_filter_def in_EMPTY_VALUES_PyStr py_bind_return u
        split: list.splits)
qed

text \<open>
  Claim C1. For every queryset \<open>qs\<close>, \<open>ContentTypeFilter.filter(qs, "dcim.site")\<close> is
  \<open>qs.filter\<close> with the two conditions \<open><field>__app_label = "dcim"\<close> and
  \<open><field>__model = "site"\<close>; a non-empty value without a \<open>.\<close> gives \<open>qs.none()\<close>; an empty
  value (\<open>''\<close>, \<open>None\<close>, \<open>[]\<close>) gives \<open>qs\<close> itself, with no call on it.
\<close>

theorem ContentTypeFilter_filter_cases:
  "ContentTypeFilter_filter db self qs (PyStr ''dcim.site'') =
     qs_filter db qs
       [field_name self @ ''__app_label'' \<mapsto> PyStr ''dcim'',
        field_name self @ ''__model'' \<mapsto> PyStr ''site'']
   \<and> (s \<noteq> [] \<and> CHR ''.'' \<notin> set s \<longrightarrow>
        ContentTypeFilter_filter db self qs (PyStr s) = py_total (qs_none db qs))
   \<and> ContentTypeFilter_filter db self qs (PyStr []) = py_return qs
   \<and> ContentTypeFilter_filter db self qs PyNone = py_return qs
   \<and> ContentTypeFilter_filter db self qs (PyList []) = py_return qs"
proof (intro conjI impI)
  show "ContentTypeFilter_filter db self qs (PyStr ''dcim.site'') =
     qs_filter db qs
       [field_name self @ ''__app_label'' \<mapsto> PyStr ''dcim'',
        field_name self @ ''__model'' \<mapsto> PyStr ''site'']"
    by (simp add: ContentTypeFilter_filter_PyStr split_dcim_site)
next
  assume a: "s \<noteq> [] \<and> CHR ''.'' \<notin> set s"
  then have "str_split (str_lower s) (CHR ''.'') = [str_lower s]"
    by (simp add: str_split_def split_acc_no_sep str_lower_no_dot)
  with a show "ContentTypeFilter_filter db self qs (PyStr s) = py_total (qs_none db qs)"
    by (simp add: ContentTypeFilter_filter_PyStr)
qed (simp_all add: ContentTypeFilter_filter_def in_EMPTY_VALUES_def EMPTY_VALUES_def)

text \<open>The value \<open>"invalid"\<close> on the queryset 0 of a one-object world: the new object is \<open>qs.none()\<close>.\<close>

theorem ContentTypeFilter_filter_cases_witness:
  "ContentTypeFilter_filter demo_orm demo_self 0 (PyStr ''invalid'') [Base]
     = (Inr 1, [Base, NoneOf 0])"
  using ContentTypeFilter_filter_cases [of demo_orm demo_self 0 "''invalid''"]
  by (simp add: py_total_def demo_orm_def demo_new_def)

text \<open>
  Claim C8. \<open>ContentTypeFilter.filter\<close> lower-cases the value before it splits it on \<open>.\<close>:
  \<open>"DCIM.Site"\<close> is \<open>qs.filter\<close> with \<open><field>__app_label = "dcim"\<close> and
  \<open><field>__model = "site"\<close>, the same as \<open>"dcim.site"\<close>, on every queryset. In general the
  result on a non-empty string is decided by the parts of its lower-cased form (two parts:
  \<open>qs.filter\<close> on them; otherwise \<open>qs.none()\<close>), so a string and its lower-cased form give the
  same result. Strings are those of code points below 256.
\<close>

theorem ContentTypeFilter_filter_case_insensitive:
  "ContentTypeFilter_filter db self qs (PyStr ''DCIM.Site'') =
     qs_filter db qs
       [field_name self @ ''__app_label'' \<mapsto> PyStr ''dcim'',
        field_name self @ ''__model'' \<mapsto> PyStr ''site'']
   \<and> ContentTypeFilter_filter db self qs (PyStr ''DCIM.Site'') =
       ContentTypeFilter_filter db self qs (PyStr ''dcim.site'')
   \<and> ContentTypeFilter_filter db self qs (PyStr s) =
       (if s = [] then py_return qs
        else case str_split (str_lower s) (CHR ''.'') of
               [app_label, model] \<Rightarrow>
                 qs_filter db qs
                   [field_name self @ ''__app_label'' \<mapsto> PyStr app_label,
                    field_name self @ ''__model'' \<mapsto> PyStr model]
             | _ \<Rightarrow> py_total (qs_none db qs))
   \<and> ContentTypeFilter_filter db self qs (PyStr s) =
       ContentTypeFilter_filter db self qs (PyStr (str_lower s))"
proof (intro conjI)
  show "ContentTypeFilter_filter db self qs (PyStr s) =
       (if s = [] then py_return qs
        else case str_split (str_lower s) (CHR ''.'') of
               [app_label, model] \<Rightarrow>
                 qs_filter db qs
                   [field_name self @ ''__app_label'' \<mapsto> PyStr app_label,
                    field_name self @ ''__model'' \<mapsto> PyStr model]
             | _ \<Rightarrow> py_total (qs_none db qs))"
    by (rule ContentTypeFilter_filter_PyStr)
qed (simp_all add: ContentTypeFilter_filter_PyStr split_dcim_site split_DCIM_Site
      str_lower_idem str_lower_Nil)

text \<open>
  On the queryset 0: \<open>"DCIM.Site"\<close> makes the queryset filtered by \<open>dcim\<close> and \<open>site\<close>; the
  capital E acute (201) followed by \<open>.SITE\<close> is matched as its small letter (233) and \<open>site\<close>.
\<close>

theorem ContentTypeFilter_filter_case_insensitive_witness:
  "ContentTypeFilter_filter demo_orm demo_self 0 (PyStr ''DCIM.Site'') [Base]
     = (Inr 1, [Base, FilterOf 0
          [''f__app_label'' \<mapsto> PyStr ''dcim'', ''f__model'' \<mapsto> PyStr ''site'']])
   \<and> ContentTypeFilter_filter demo_orm demo_self 0 (PyStr (char_of (201 :: nat) # ''.SITE''))
       [Base]
     = (Inr 1, [Base, FilterOf 0
          [''f__app_label'' \<mapsto> PyStr [char_of (233 :: nat)], ''f__model'' \<mapsto> PyStr ''site'']])"
proof -
  let ?s = "char_of (201 :: nat) # ''.SITE''"
  have l: "str_split (str_lower ?s) (CHR ''.'') = [[char_of (233 :: nat)], ''site'']"
    by code_simp
  note t = ContentTypeFilter_filter_case_insensitive [of demo_orm demo_self 0 ?s]
  from t have "ContentTypeFilter_filter demo_orm demo_self 0 (PyStr ''DCIM.Site'') =
      qs_filter demo_orm 0
       [field_name demo_self @ ''__app_label'' \<mapsto> PyStr ''dcim'',
        field_name demo_self @ ''__model'' \<mapsto> PyStr ''site'']"
    by (rule conjunct1)
  then have 1: "ContentTypeFilter_filter demo_orm demo_self 0 (PyStr ''DCIM.Site'') [Base]
     = (Inr 1, [Base, FilterOf 0
          [''f__app_label'' \<mapsto> PyStr ''dcim'', ''f__model'' \<mapsto> PyStr ''site'']])"
    by (simp add: demo_orm_def demo_self_def py_total_def demo_new_def)
  from t have "ContentTypeFilter_filter demo_orm demo_self 0 (PyStr ?s) =
       (if ?s = [] then py_return 0
        else case str_split (str_lower ?s) (CHR ''.'') of
               [app_label, model] \<Rightarrow>
                 qs_filter demo_orm 0
                   [field_name demo_self @ ''__app_label'' \<mapsto> PyStr app_label,
                    field_name demo_self @ ''__model'' \<mapsto> PyStr model]
             | _ \<Rightarrow> py_total (qs_none demo_orm 0))"
    by blast
  then have 2: "ContentTypeFilter_filter demo_orm demo_self 0 (PyStr ?s) [Base]
     = (Inr 1, [Base, FilterOf 0
          [''f__app_label'' \<mapsto> PyStr [char_of (233 :: nat)], ''f__model'' \<mapsto> PyStr ''site'']])"
    by (simp add: l) (simp add: demo_orm_def demo_self_def py_total_def demo_new_def)
  from 1 2 show ?thesis by simp
qed

subsection \<open>NullableCharFieldFilter\<close>

text \<open>
  Claim C3, as stated, fails: "with the null sentinel the filter returns exactly the rows
  where the field is null". The condition goes to \<open>self.get_method(qs)\<close>, and for a filter
  built with \<open>exclude=True\<close> that method is \<open>qs.exclude\<close>: the result is the queryset without
  the rows where the field is null.
\<close>

theorem NullableCharFieldFilter_filter_exclude_counterexample:
  "NullableCharFieldFilter_filter demo_settings demo_orm demo_django_filters
     (demo_self \<lparr> exclude_flag := True \<rparr>) 0 (PyStr ''null'') [Base]
   = (Inr 1, [Base, ExcludeOf 0 [''f__isnull'' \<mapsto> PyBool True]])"
  by (simp add: NullableCharFieldFilter_filter_def demo_settings_def demo_django_filters_def
      demo_self_def demo_new_def py_total_def py_bind_def py_return_def)

text \<open>
  Claim C3, amended. For every queryset \<open>qs\<close> and string \<open>v\<close>: when \<open>v\<close> is
  \<open>settings.FILTERS_NULL_CHOICE_VALUE\<close>, \<open>NullableCharFieldFilter.filter(qs, v)\<close> applies the
  filter's method \<open>self.get_method(qs)\<close> to the single condition \<open><field>__isnull = True\<close>,
  followed by \<open>distinct()\<close> when the filter asks for it. For a filter whose method is
  \<open>qs.filter\<close> (one not built with \<open>exclude=True\<close>) and that is not distinct, the result is
  \<open>qs.filter(<field>__isnull=True)\<close>, the rows where the field is null. For any other \<open>v\<close>
  the call is \<open>CharFilter.filter(qs, v)\<close>.
\<close>

theorem NullableCharFieldFilter_filter_cases:
  "(get_method df self qs = qs_filter db qs \<and> \<not> distinct_flag self \<longrightarrow>
      NullableCharFieldFilter_filter st db df self qs (PyStr (FILTERS_NULL_CHOICE_VALUE st)) =
        qs_filter db qs [field_name self @ ''__isnull'' \<mapsto> PyBool True])
   \<and> (get_method df self qs = qs_filter db qs \<and> distinct_flag self \<longrightarrow>
      NullableCharFieldFilter_filter st db df self qs (PyStr (FILTERS_NULL_CHOICE_VALUE st)) =
        py_bind (qs_filter db qs [field_name self @ ''__isnull'' \<mapsto> PyBool True])
          (qs_distinct db))
   \<and> NullableCharFieldFilter_filter st db df self qs (PyStr (FILTERS_NULL_CHOICE_VALUE st)) =
       py_bind (get_method df self qs [field_name self @ ''__isnull'' \<mapsto> PyBool True])
         (\<lambda>qs'. if distinct_flag self then qs_distinct db qs' else py_return qs')
   \<and> (v \<noteq> PyStr (FILTERS_NULL_CHOICE_VALUE st) \<longrightarrow>
      NullableCharFieldFilter_filter st db df self qs v = CharFilter_filter df self qs v)"
proof (intro conjI impI)
  have r: "py_bind m py_return = m" for m :: "('q, 'w) py"
    by (auto simp add: py_bind_def py_return_def fun_eq_iff split: prod.splits sum.splits)
  let ?kw = "[field_name self @ ''__isnull'' \<mapsto> PyBool True] :: 'o kwargs"
  let ?sentinel = "PyStr (FILTERS_NULL_CHOICE_VALUE st) :: 'o pyval"
  show g: "NullableCharFieldFilter_filter st db df self qs ?sentinel =
       py_bind (get_method df self qs ?kw)
         (\<lambda>qs'. if distinct_flag self then qs_distinct db qs' else py_return qs')"
    by (simp add: NullableCharFieldFilter_filter_def)
  {
    assume "get_method df self qs = qs_filter db qs \<and> \<not> distinct_flag self"
    then have "get_method df self qs ?kw = qs_filter db qs ?kw" and "\<not> distinct_flag self"
      by simp_all
    then show "NullableCharFieldFilter_filter st db df self qs ?sentinel = qs_filter db qs ?kw"
      unfolding g by (simp add: r)
  }
  {
    assume "get_method df self qs = qs_filter db qs \<and> distinct_flag self"
    then have "get_method df self qs ?kw = qs_filter db qs ?kw" and "distinct_flag self"
      by simp_all
    then show "NullableCharFieldFilter_filter st db df self qs ?sentinel =
        py_bind (qs_filter db qs ?kw) (qs_distinct db)"
      unfolding g by simp
  }
  {
    assume "v \<noteq> ?sentinel"
    then show "NullableCharFieldFilter_filter st db df self qs v = CharFilter_filter df self qs v"
      by (simp add: NullableCharFieldFilter_filter_def)
  }
qed

text \<open>
  With the sentinel \<open>'null'\<close> and a filter that does not exclude: the sentinel gives the
  filtered queryset of the null condition, \<open>'x'\<close> is delegated.
\<close>

theorem NullableCharFieldFilter_filter_cases_witness:
  "NullableCharFieldFilter_filter demo_settings demo_orm demo_django_filters demo_self 0
     (PyStr ''null'') [Base] = (Inr 1, [Base, FilterOf 0 [''f__isnull'' \<mapsto> PyBool True]])
   \<and> NullableCharFieldFilter_filter demo_settings demo_orm demo_django_filters demo_self 0
     (PyStr ''x'') [Base] = (Inr 1, [Base, SuperOf ''CharFilter.filter'' 0 (PyStr ''x'')])"
proof -
  have g: "get_method demo_django_filters demo_self 0 = qs_filter demo_orm 0"
    by (simp add: demo_django_filters_def demo_self_def demo_orm_def)
  have n: "\<not> distinct_flag demo_self"
    by (simp add: demo_self_def)
  have x: "PyStr ''x'' \<noteq> (PyStr (FILTERS_NULL_CHOICE_VALUE demo_settings) :: nat pyval)"
    by (simp add: demo_settings_def)
  from NullableCharFieldFilter_filter_cases
      [of demo_django_filters demo_self 0 demo_orm demo_settings "PyStr ''x''"] g n x
  show ?thesis
    by (simp add: demo_settings_def demo_orm_def demo_django_filters_def demo_self_def
        demo_new_def py_total_def)
qed

subsection \<open>NumericArrayFilter and MultiValueArrayFilter\<close>

text \<open>
  Claim C9. \<open>NumericArrayFilter.filter\<close> wraps the value into a one-element list exactly when
  the value is truthy. \<open>None\<close>, \<open>0\<close> and the empty string reach \<open>NumberFilter.filter\<close> as they
  are; so does every other falsy value (a zero decimal, \<open>False\<close>, an empty list), and every
  truthy one is wrapped. For an opaque object its own truth value decides.
\<close>

theorem NumericArrayFilter_filter_wraps_iff_truthy:
  "NumericArrayFilter_filter objs df self qs PyNone = NumberFilter_filter df self qs PyNone
   \<and> NumericArrayFilter_filter objs df self qs (PyInt 0) = NumberFilter_filter df self qs (PyInt 0)
   \<and> NumericArrayFilter_filter objs df self qs (PyStr []) = NumberFilter_filter df self qs (PyStr [])
   \<and> NumericArrayFilter_filter objs df self qs (PyInt i) =
       NumberFilter_filter df self qs (if i \<noteq> 0 then PyList [PyInt i] else PyInt i)
   \<and> NumericArrayFilter_filter objs df self qs (PyDecimal c e) =
       NumberFilter_filter df self qs (if c \<noteq> 0 then PyList [PyDecimal c e] else PyDecimal c e)
   \<and> NumericArrayFilter_filter objs df self qs (PyStr s) =
       NumberFilter_filter df self qs (if s \<noteq> [] then PyList [PyStr s] else PyStr s)
   \<and> NumericArrayFilter_filter objs df self qs (PyBool b) =
       NumberFilter_filter df self qs (if b then PyList [PyBool b] else PyBool b)
   \<and> NumericArrayFilter_filter objs df self qs (PyList xs) =
       NumberFilter_filter df self qs (if xs \<noteq> [] then PyList [PyList xs] else PyList xs)
   \<and> NumericArrayFilter_filter objs df self qs (PyObj x) =
       py_bind (obj_bool objs x)
         (\<lambda>b. NumberFilter_filter df self qs (if b then PyList [PyObj x] else PyObj x))"
  by (simp add: NumericArrayFilter_filter_def py_bind_return)

text \<open>
  Claim C4, as stated, fails: "for every scalar input the array filter wraps the scalar, and it
  bypasses the wrapping exactly when the null sentinel is supplied". The empty string and the
  number \<open>0\<close> are scalars, neither is a null sentinel, and both are delegated unwrapped; the
  sentinel string of the settings is wrapped like any other non-empty string.
\<close>

theorem NumericArrayFilter_filter_sentinel_counterexample:
  "NumericArrayFilter_filter demo_objects demo_django_filters demo_self 0 (PyStr []) [Base]
     = (Inr 1, [Base, SuperOf ''NumberFilter.filter'' 0 (PyStr [])])
   \<and> NumericArrayFilter_filter demo_objects demo_django_filters demo_self 0 (PyInt 0) [Base]
     = (Inr 1, [Base, SuperOf ''NumberFilter.filter'' 0 (PyInt 0)])
   \<and> NumericArrayFilter_filter demo_objects demo_django_filters demo_self 0
       (PyStr (FILTERS_NULL_CHOICE_VALUE demo_settings)) [Base]
     = (Inr 1, [Base, SuperOf ''NumberFilter.filter'' 0 (PyList [PyStr ''null''])])"
  by (simp add: NumericArrayFilter_filter_def py_bind_return demo_django_filters_def
      demo_settings_def demo_new_def py_total_def)

text \<open>
  Claim C4, amended. \<open>NumericArrayFilter.filter\<close> wraps every non-zero number and every
  non-empty string into a one-element list before it delegates to \<open>NumberFilter.filter\<close>, and
  passes \<open>None\<close> and the empty string on unwrapped. The null case belongs to
  \<open>MultiValueArrayFilter.get_filter_predicate\<close>: for \<open>None\<close> it returns \<open>{field_name: None}\<close>
  whatever the lookup expression, and for any other value it is the inherited predicate.
\<close>

theorem array_filters_wrapping_and_null:
  "(i \<noteq> 0 \<longrightarrow> NumericArrayFilter_filter objs df self qs (PyInt i) =
       NumberFilter_filter df self qs (PyList [PyInt i]))
   \<and> (c \<noteq> 0 \<longrightarrow> NumericArrayFilter_filter objs df self qs (PyDecimal c e) =
       NumberFilter_filter df self qs (PyList [PyDecimal c e]))
   \<and> (s \<noteq> [] \<longrightarrow> NumericArrayFilter_filter objs df self qs (PyStr s) =
       NumberFilter_filter df self qs (PyList [PyStr s]))
   \<and> NumericArrayFilter_filter objs df self qs PyNone = NumberFilter_filter df self qs PyNone
   \<and> NumericArrayFilter_filter objs df self qs (PyStr []) =
       NumberFilter_filter df self qs (PyStr [])
   \<and> MultiValueArrayFilter_get_filter_predicate df self PyNone
       = py_return [field_name self \<mapsto> PyNone]
   \<and> MultiValueArrayFilter_get_filter_predicate df (self\<lparr>lookup_expr := l\<rparr>) PyNone
       = MultiValueArrayFilter_get_filter_predicate df self PyNone
   \<and> (v \<noteq> PyNone \<longrightarrow> MultiValueArrayFilter_get_filter_predicate df self v
       = MultipleChoiceFilter_get_filter_predicate df self v)"
  by (simp add: NumericArrayFilter_filter_def py_bind_return
      MultiValueArrayFilter_get_filter_predicate_def)

text \<open>The number 7, the decimal 1.5 and the string \<open>'7'\<close> are wrapped; 7 is no null value.\<close>

theorem array_filters_wrapping_and_null_witness:
  "NumericArrayFilter_filter demo_objects demo_django_filters demo_self 0 (PyInt 7) [Base]
     = (Inr 1, [Base, SuperOf ''NumberFilter.filter'' 0 (PyList [PyInt 7])])
   \<and> NumericArrayFilter_filter demo_objects demo_django_filters demo_self 0
       (PyDecimal 15 (-1)) [Base]
     = (Inr 1, [Base, SuperOf ''NumberFilter.filter'' 0 (PyList [PyDecimal 15 (-1)])])
   \<and> NumericArrayFilter_filter demo_objects demo_django_filters demo_self 0 (PyStr ''7'') [Base]
     = (Inr 1, [Base, SuperOf ''NumberFilter.filter'' 0 (PyList [PyStr ''7''])])
   \<and> MultiValueArrayFilter_get_filter_predicate demo_django_filters demo_self (PyInt 7) [Base]
     = (Inr [''f'' \<mapsto> PyInt 7], [Base])"
  using array_filters_wrapping_and_null
    [of 7 demo_objects demo_django_filters demo_self 0 15 "-1" "''7''" "''contains''" "PyInt 7"]
  by (simp add: demo_django_filters_def demo_self_def demo_new_def py_total_def py_return_def)

subsection \<open>MultiValueMACAddressFilter\<close>

text \<open>
  Claim C6. \<open>MultiValueMACAddressFilter.filter(qs, value)\<close> never raises \<open>ValidationError\<close>:
  when the inherited \<open>filter\<close> raises it, the result is \<open>qs.none()\<close>; when the inherited
  \<open>filter\<close> returns a queryset, that queryset is the result.
\<close>

theorem MultiValueMACAddressFilter_filter_no_ValidationError:
  "fst (MultiValueMACAddressFilter_filter db df self qs v w) \<noteq> Inl ValidationError
   \<and> (MultipleChoiceFilter_filter df self (MultipleChoiceFilter_get_filter_predicate df self) qs v w
        = (Inl ValidationError, w')
      \<longrightarrow> MultiValueMACAddressFilter_filter db df self qs v w = py_total (qs_none db qs) w')
   \<and> (MultipleChoiceFilter_filter df self (MultipleChoiceFilter_get_filter_predicate df self) qs v w
        = (Inr qs', w')
      \<longrightarrow> MultiValueMACAddressFilter_filter db df self qs v w = (Inr qs', w'))"
  by (auto simp add: MultiValueMACAddressFilter_filter_def py_try_except_def py_total_def
      py_return_def split: prod.splits sum.splits)

theorem MultiValueMACAddressFilter_filter_no_ValidationError_witness:
  "MultiValueMACAddressFilter_filter demo_orm demo_django_filters demo_self 0
     (PyList [PyStr ''zz'']) [Base] = (Inr 1, [Base, NoneOf 0])
   \<and> MultiValueMACAddressFilter_filter demo_orm demo_django_filters demo_self 0
       (PyList [PyStr ''00:11:22:33:44:55'']) [Base]
     = (Inr 1, [Base, SuperOf ''MultipleChoiceFilter.filter'' 0
          (PyList [PyStr ''00:11:22:33:44:55''])])"
  using
    MultiValueMACAddressFilter_filter_no_ValidationError
      [of demo_orm demo_django_filters demo_self 0 "PyList [PyStr ''zz'']" "[Base]" "[Base]"]
    MultiValueMACAddressFilter_filter_no_ValidationError
      [of demo_orm demo_django_filters demo_self 0 "PyList [PyStr ''00:11:22:33:44:55'']"
        "[Base]"
        "[Base, SuperOf ''MultipleChoiceFilter.filter'' 0 (PyList [PyStr ''00:11:22:33:44:55''])]"
        1]
  by (simp add: demo_django_filters_def demo_multiple_choice_def demo_orm_def demo_new_def
      py_total_def py_raise_def)

subsection \<open>TreeNodeMultipleChoiceFilter\<close>


lemma py_map_expand_PyStr:
  "py_map (expand_node objs) (map PyStr ss) = py_return (map PyStr ss)"
  by (induction ss) (simp_all add: py_bind_return)

lemma py_map_Inr_length:
  "py_map f vs w = (Inr xs, w') \<Longrightarrow> length xs = length vs"
proof (induction vs arbitrary: w xs)
  case Nil
  then show ?case by (simp add: py_return_def)
next
  case (Cons v vs)
  then show ?case
    by (auto simp add: py_bind_def py_return_def split: prod.splits sum.splits)
qed

lemma py_map_Inr_nth:
  "py_map f vs w = (Inr xs, w') \<Longrightarrow> i < length vs
     \<Longrightarrow> \<exists>w1 w2. f (vs ! i) w1 = (Inr (xs ! i), w2)"
proof (induction vs arbitrary: w xs i)
  case Nil
  then show ?case by simp
next
  case (Cons v vs)
  from Cons.prems(1) obtain x w1 ys where
    h: "f v w = (Inr x, w1)" and t: "py_map f vs w1 = (Inr ys, w')" and xs: "xs = x # ys"
    by (auto simp add: py_bind_def py_return_def split: prod.splits sum.splits)
  show ?case
  proof (cases i)
    case 0
    with h xs show ?thesis by auto
  next
    case (Suc j)
    with Cons.prems(2) have "j < length vs" by simp
    from Cons.IH [OF t this] Suc xs show ?thesis by simp
  qed
qed

lemma expand_node_Inr:
  "expand_node objs v w1 = (Inr y, w2) \<Longrightarrow>
     (case v of
        PyStr s \<Rightarrow> y = PyStr s
      | PyObj x \<Rightarrow> obj_get_descendants objs x True w1 = (Inr y, w2)
      | _ \<Rightarrow> False)"
  by (cases v) (auto simp add: py_raise_def py_return_def)



text \<open>
  Claim C10. Only the entries that are not strings are expanded. A list of strings is
  delegated as it is; and whenever the expansion of a list succeeds, the delegated list has
  the same length, each string entry stands unchanged at its place, and each other entry is
  an object whose place holds what its \<open>get_descendants(include_self=True)\<close> returned.
\<close>

theorem TreeNodeMultipleChoiceFilter_filter_strings_pass:
  "TreeNodeMultipleChoiceFilter_filter objs df self qs (PyList (map PyStr ss)) =
     ModelMultipleChoiceFilter_filter df self
       (TreeNodeMultipleChoiceFilter_get_filter_predicate df self) qs (PyList (map PyStr ss))
   \<and> (py_map (expand_node objs) vs w = (Inr xs, w') \<longrightarrow>
        TreeNodeMultipleChoiceFilter_filter objs df self qs (PyList vs) w =
          ModelMultipleChoiceFilter_filter df self
            (TreeNodeMultipleChoiceFilter_get_filter_predicate df self) qs (PyList xs) w'
        \<and> length xs = length vs
        \<and> (\<forall>i<length vs.
             case vs ! i of
               PyStr s \<Rightarrow> xs ! i = PyStr s
             | PyObj x \<Rightarrow> (\<exists>w1 w2. obj_get_descendants objs x True w1 = (Inr (xs ! i), w2))
             | _ \<Rightarrow> False))"
proof (intro conjI impI)
  show "TreeNodeMultipleChoiceFilter_filter objs df self qs (PyList (map PyStr ss)) =
     ModelMultipleChoiceFilter_filter df self
       (TreeNodeMultipleChoiceFilter_get_filter_predicate df self) qs (PyList (map PyStr ss))"
    by (simp add: TreeNodeMultipleChoiceFilter_filter_def py_bind_return py_map_expand_PyStr)
next
  assume a: "py_map (expand_node objs) vs w = (Inr xs, w')"
  then show "TreeNodeMultipleChoiceFilter_filter objs df self qs (PyList vs) w =
          ModelMultipleChoiceFilter_filter df self
            (TreeNodeMultipleChoiceFilter_get_filter_predicate df self) qs (PyList xs) w'"
    by (simp add: TreeNodeMultipleChoiceFilter_filter_def py_bind_return) (simp add: py_bind_def)
  from a show "length xs = length vs"
    by (rule py_map_Inr_length)
  show "\<forall>i<length vs.
             case vs ! i of
               PyStr s \<Rightarrow> xs ! i = PyStr s
             | PyObj x \<Rightarrow> (\<exists>w1 w2. obj_get_descendants objs x True w1 = (Inr (xs ! i), w2))
             | _ \<Rightarrow> False"
  proof (intro allI impI)
    fix i assume "i < length vs"
    from py_map_Inr_nth [OF a this] obtain w1 w2 where
      e: "expand_node objs (vs ! i) w1 = (Inr (xs ! i), w2)" by blast
    then show "case vs ! i of
               PyStr s \<Rightarrow> xs ! i = PyStr s
             | PyObj x \<Rightarrow> (\<exists>w1 w2. obj_get_descendants objs x True w1 = (Inr (xs ! i), w2))
             | _ \<Rightarrow> False"
      using expand_node_Inr [OF e] by (auto split: pyval.splits)
  qed
qed

text \<open>The null choice \<open>'null'\<close> beside the node 2: the string stays, the node is expanded.\<close>

theorem TreeNodeMultipleChoiceFilter_filter_strings_pass_witness:
  "TreeNodeMultipleChoiceFilter_filter demo_objects demo_django_filters demo_self 0
     (PyList [PyStr ''null'', PyObj 2]) [Base]
   = (Inr 1, [Base, SuperOf ''ModelMultipleChoiceFilter.filter'' 0
        (PyList [PyStr ''null'', PyList [PyObj 2, PyObj 3]])])"
proof -
  have e: "py_map (expand_node demo_objects) [PyStr ''null'', PyObj 2] [Base]
             = (Inr [PyStr ''null'', PyList [PyObj 2, PyObj 3]], [Base])"
    by (simp add: demo_objects_def py_bind_return upt_rec) (simp add: py_return_def)
  from TreeNodeMultipleChoiceFilter_filter_strings_pass
      [of demo_objects demo_django_filters demo_self 0 "[]"
        "[PyStr ''null'', PyObj 2]" "[Base]" "[PyStr ''null'', PyList [PyObj 2, PyObj 3]]"
        "[Base]"] e
  show ?thesis
    by (simp add: demo_django_filters_def demo_multiple_choice_def demo_new_def py_total_def)
qed

subsection \<open>multivalue_field_factory\<close>

lemma py_map_if_strings:
  "py_map_if (py_bool objs) f (map PyStr ss) = py_map f (map PyStr (filter (\<lambda>s. s \<noteq> []) ss))"
  by (induction ss) (simp_all add: py_bind_return)

lemma NewField_to_python_strings:
  "ss \<noteq> [] \<Longrightarrow>
   NewField_to_python objs fc self (PyList (map PyStr ss)) =
     py_bind (fc_new fc) (\<lambda>field.
       py_bind (py_map (to_python fc field) (map PyStr (filter (\<lambda>s. s \<noteq> []) ss)))
         (\<lambda>r. py_return (PyList r)))"
  by (simp add: NewField_to_python_def py_bind_return py_map_if_strings)

text \<open>An exception of the loop is the exception of one of its entries.\<close>

lemma py_for_error_from_entry:
  "fst (py_for f vs w) = Inl e \<Longrightarrow> \<exists>v\<in>set vs. \<exists>w1. fst (f v w1) = Inl e"
proof (induction vs arbitrary: w)
  case Nil
  then show ?case by (simp add: py_return_def)
next
  case (Cons v vs)
  show ?case
  proof (cases "f v w")
    case (Pair r w1)
    show ?thesis
    proof (cases r)
      case (Inl e')
      with Pair Cons.prems have "e' = e" by (simp add: py_bind_def)
      with Pair Inl have "fst (f v w) = Inl e" by simp
      then show ?thesis by auto
    next
      case (Inr u)
      with Pair Cons.prems have "fst (py_for f vs w1) = Inl e" by (simp add: py_bind_def)
      from Cons.IH [OF this] show ?thesis by auto
    qed
  qed
qed

text \<open>An entry that is always rejected makes the loop raise.\<close>

lemma py_for_fails:
  "v \<in> set vs \<Longrightarrow> \<forall>w1. \<exists>e. fst (f v w1) = Inl e \<Longrightarrow> \<exists>e. fst (py_for f vs w) = Inl e"
proof (induction vs arbitrary: w)
  case Nil
  then show ?case by simp
next
  case (Cons u vs)
  show ?case
  proof (cases "f u w")
    case (Pair r w1)
    show ?thesis
    proof (cases r)
      case (Inl e')
      with Pair show ?thesis by (simp add: py_bind_def)
    next
      case (Inr x)
      with Pair Cons.prems(2) have "u \<noteq> v"
        by (metis Inl_Inr_False fst_conv)
      with Cons.prems(1) have "v \<in> set vs" by simp
      from Cons.IH [OF this Cons.prems(2)] obtain e where "fst (py_for f vs w1) = Inl e" ..
      with Pair Inr show ?thesis by (simp add: py_bind_def)
    qed
  qed
qed

text \<open>
  Claim C2, as stated, fails: "for every form field class \<open>F\<close> the variant converts a list of
  raw strings by dropping the empty entries and coercing the others". The conversion of a
  non-empty list starts with \<open>field_class()\<close>, without arguments; for a class whose
  constructor needs an argument the list \<open>['']\<close> does not convert to \<open>[]\<close>, it raises
  \<open>TypeError\<close>.
\<close>

theorem multivalue_field_factory_constructor_counterexample:
  "to_python (multivalue_field_factory demo_objects demo_field_with_argument) ()
     (PyList [PyStr []]) [Base] = (Inl TypeError, [Base])"
  by (simp add: multivalue_field_factory_def NewField_to_python_def py_bind_return
      demo_field_with_argument_def py_bind_raise)
    (simp add: py_raise_def)

text \<open>
  Claim C2, amended. For every form field class \<open>F\<close> and every non-empty list of raw strings,
  the class made by \<open>multivalue_field_factory(F)\<close> first builds a fresh \<open>F()\<close>; when that
  raises, the conversion raises the same; when it returns an instance, the conversion drops
  the empty strings and applies the instance's \<open>to_python\<close> to each remaining one, in order.
  An empty list and a missing value (\<open>None\<close>) convert to \<open>[]\<close>, with no instance built. Its
  \<open>validate\<close> and \<open>run_validators\<close> run \<open>F\<close>'s on each entry of the list in turn: an entry
  that \<open>F\<close> rejects makes the whole call raise, and what the call raises is what \<open>F\<close> raised
  for one of the entries.
\<close>

theorem multivalue_field_factory_converts_and_validates:
  "(ss \<noteq> [] \<and> fc_new fc w0 = (Inr c, w1) \<longrightarrow>
      to_python (multivalue_field_factory objs fc) self (PyList (map PyStr ss)) w0 =
        py_bind (py_map (to_python fc c) (map PyStr (filter (\<lambda>s. s \<noteq> []) ss)))
          (\<lambda>r. py_return (PyList r)) w1)
   \<and> (ss \<noteq> [] \<and> fc_new fc w0 = (Inl ce, w1) \<longrightarrow>
      to_python (multivalue_field_factory objs fc) self (PyList (map PyStr ss)) w0 = (Inl ce, w1))
   \<and> to_python (multivalue_field_factory objs fc) self (PyList []) = py_return (PyList [])
   \<and> to_python (multivalue_field_factory objs fc) self PyNone = py_return (PyList [])
   \<and> validate (multivalue_field_factory objs fc) self (PyList vs) = py_for (validate fc self) vs
   \<and> run_validators (multivalue_field_factory objs fc) self (PyList vs)
       = py_for (run_validators fc self) vs
   \<and> (v \<in> set vs \<and> (\<forall>w1. \<exists>e. fst (validate fc self v w1) = Inl e)
        \<longrightarrow> (\<exists>e. fst (validate (multivalue_field_factory objs fc) self (PyList vs) w) = Inl e))
   \<and> (v \<in> set vs \<and> (\<forall>w1. \<exists>e. fst (run_validators fc self v w1) = Inl e)
        \<longrightarrow> (\<exists>e. fst (run_validators (multivalue_field_factory objs fc) self (PyList vs) w)
               = Inl e))
   \<and> (fst (validate (multivalue_field_factory objs fc) self (PyList vs) w) = Inl e
        \<longrightarrow> (\<exists>u\<in>set vs. \<exists>w1. fst (validate fc self u w1) = Inl e))
   \<and> (fst (run_validators (multivalue_field_factory objs fc) self (PyList vs) w) = Inl e
        \<longrightarrow> (\<exists>u\<in>set vs. \<exists>w1. fst (run_validators fc self u w1) = Inl e))"
proof -
  have m: "to_python (multivalue_field_factory objs fc) = NewField_to_python objs fc"
    "validate (multivalue_field_factory objs fc) = NewField_validate objs fc"
    "run_validators (multivalue_field_factory objs fc) = NewField_run_validators objs fc"
    by (simp_all add: multivalue_field_factory_def)
  have v: "NewField_validate objs fc self (PyList vs) = py_for (validate fc self) vs"
    by (simp add: NewField_validate_def py_bind_return)
  have r: "NewField_run_validators objs fc self (PyList vs) = py_for (run_validators fc self) vs"
    by (simp add: NewField_run_validators_def py_bind_return)
  have t0: "NewField_to_python objs fc self (PyList []) = py_return (PyList [])"
    "NewField_to_python objs fc self PyNone = py_return (PyList [])"
    by (simp_all add: NewField_to_python_def py_bind_return)
  have t1: "NewField_to_python objs fc self (PyList (map PyStr ss)) w0 =
        py_bind (py_map (to_python fc c) (map PyStr (filter (\<lambda>s. s \<noteq> []) ss)))
          (\<lambda>r. py_return (PyList r)) w1"
    if "ss \<noteq> []" "fc_new fc w0 = (Inr c, w1)"
    using that by (simp add: NewField_to_python_strings) (simp add: py_bind_def)
  have t2: "NewField_to_python objs fc self (PyList (map PyStr ss)) w0 = (Inl ce, w1)"
    if "ss \<noteq> []" "fc_new fc w0 = (Inl ce, w1)"
    using that by (simp add: NewField_to_python_strings) (simp add: py_bind_def)
  show ?thesis
    unfolding m v r
    using t0 t1 t2
      py_for_fails [of v vs "validate fc self" w]
      py_for_fails [of v vs "run_validators fc self" w]
      py_for_error_from_entry [of "validate fc self" vs w e]
      py_for_error_from_entry [of "run_validators fc self" vs w e]
    by blast
qed

text \<open>
  The values \<open>['a', '', 'b']\<close> convert to \<open>['a', 'b']\<close>; the values \<open>['a', 'bad', 'b']\<close> fail
  validation with the \<open>ValidationError\<close> of the entry \<open>'bad'\<close>; with the constructor that
  needs an argument, \<open>['a']\<close> raises its \<open>TypeError\<close>.
\<close>

theorem multivalue_field_factory_converts_and_validates_witness:
  "to_python (multivalue_field_factory demo_objects demo_field) ()
     (PyList [PyStr ''a'', PyStr [], PyStr ''b'']) [Base]
     = (Inr (PyList [PyStr ''a'', PyStr ''b'']), [Base])
   \<and> fst (validate (multivalue_field_factory demo_objects demo_field) ()
       (PyList [PyStr ''a'', PyStr ''bad'', PyStr ''b'']) [Base]) = Inl ValidationError
   \<and> to_python (multivalue_field_factory demo_objects demo_field_with_argument) ()
       (PyList [PyStr ''a'']) [Base] = (Inl TypeError, [Base])"
proof -
  let ?M = "multivalue_field_factory demo_objects demo_field"
  let ?vs = "[PyStr ''a'', PyStr ''bad'', PyStr ''b''] :: nat pyval list"
  have bad: "\<forall>w1. \<exists>e. fst (validate demo_field () (PyStr ''bad'') w1) = Inl e"
    by (simp add: demo_field_def py_raise_def)
  have mem: "PyStr ''bad'' \<in> set ?vs"
    by simp
  have new: "fc_new demo_field [Base] = (Inr (), [Base])"
    by (simp add: demo_field_def py_return_def)
  have new': "fc_new demo_field_with_argument [Base] = (Inl TypeError, [Base])"
    by (simp add: demo_field_with_argument_def py_raise_def)
  from multivalue_field_factory_converts_and_validates
      [of "[''a'', [], ''b'']" demo_field "[Base]" "()" "[Base]" demo_objects "()" _ ?vs
        "PyStr ''bad''" "[Base]"] mem bad
  obtain e where e: "fst (validate ?M () (PyList ?vs) [Base]) = Inl e"
    by blast
  from multivalue_field_factory_converts_and_validates
      [of "[''a'', [], ''b'']" demo_field "[Base]" "()" "[Base]" demo_objects "()" _ ?vs
        "PyStr ''bad''" "[Base]" e] e
  obtain u w1 where "u \<in> set ?vs" and "fst (validate demo_field () u w1) = Inl e"
    by blast
  then have "e = ValidationError"
    by (auto simp add: demo_field_def py_raise_def py_return_def split: if_splits)
  with e have 2: "fst (validate ?M () (PyList ?vs) [Base]) = Inl ValidationError"
    by simp
  from multivalue_field_factory_converts_and_validates
      [of "[''a'', [], ''b'']" demo_field "[Base]" "()" "[Base]" demo_objects "()"] new
  have 1: "to_python ?M () (PyList [PyStr ''a'', PyStr [], PyStr ''b'']) [Base]
      = (Inr (PyList [PyStr ''a'', PyStr ''b'']), [Base])"
    by (simp add: demo_field_def py_bind_return) (simp add: py_return_def)
  from multivalue_field_factory_converts_and_validates
      [of "[''a'']" demo_field_with_argument "[Base]" _ "[Base]" demo_objects "()" TypeError] new'
  have 3: "to_python (multivalue_field_factory demo_objects demo_field_with_argument) ()
       (PyList [PyStr ''a'']) [Base] = (Inl TypeError, [Base])"
    by simp
  from 1 2 3 show ?thesis by simp
qed

subsection \<open>No filter changes a queryset in place\<close>

lemma unchanged_return: "unchanged look (py_return a)"
  by (simp add: unchanged_def py_return_def)

lemma unchanged_raise: "unchanged look (py_raise e)"
  by (simp add: unchanged_def py_raise_def)

lemma unchanged_bind:
  assumes m: "unchanged look m" and k: "\<And>a. unchanged look (k a)"
  shows "unchanged look (py_bind m k)"
  unfolding unchanged_def
proof (intro allI impI)
  fix w q
  assume l: "look w q \<noteq> None"
  obtain r w1 where r: "m w = (r, w1)" by (cases "m w")
  with m l have 1: "look w1 q = look w q"
    by (auto simp add: unchanged_def dest: spec [of _ w])
  show "look (snd (py_bind m k w)) q = look w q"
  proof (cases r)
    case (Inl e)
    with r 1 show ?thesis by (simp add: py_bind_def)
  next
    case (Inr a)
    from k [of a] 1 l have "look (snd (k a w1)) q = look w1 q"
      by (simp add: unchanged_def)
    with r Inr 1 show ?thesis by (simp add: py_bind_def)
  qed
qed

lemma unchanged_try_except:
  assumes m: "unchanged look m" and h: "unchanged look h" and k: "\<And>a. unchanged look (k a)"
  shows "unchanged look (py_try_except m exc h k)"
  unfolding unchanged_def
proof (intro allI impI)
  fix w q
  assume l: "look w q \<noteq> None"
  obtain r w1 where r: "m w = (r, w1)" by (cases "m w")
  with m l have 1: "look w1 q = look w q"
    by (auto simp add: unchanged_def dest: spec [of _ w])
  show "look (snd (py_try_except m exc h k w)) q = look w q"
  proof (cases r)
    case (Inl e)
    from h 1 l have "look (snd (h w1)) q = look w1 q"
      by (simp add: unchanged_def)
    with r Inl 1 show ?thesis by (simp add: py_try_except_def)
  next
    case (Inr a)
    from k [of a] 1 l have "look (snd (k a w1)) q = look w1 q"
      by (simp add: unchanged_def)
    with r Inr 1 show ?thesis by (simp add: py_try_except_def)
  qed
qed

lemma unchanged_py_map:
  "(\<And>v. unchanged look (f v)) \<Longrightarrow> unchanged look (py_map f vs)"
  by (induction vs) (simp_all add: unchanged_return unchanged_bind)

lemma unchanged_py_bool:
  "(\<And>x. unchanged look (obj_bool objs x)) \<Longrightarrow> unchanged look (py_bool objs v)"
  by (cases v) (simp_all add: unchanged_return)

lemma unchanged_py_iter:
  "(\<And>x. unchanged look (obj_iter objs x)) \<Longrightarrow> unchanged look (py_iter objs v)"
  by (cases v) (simp_all add: unchanged_return unchanged_raise)

lemma unchanged_expand_node:
  "(\<And>x b. unchanged look (obj_get_descendants objs x b)) \<Longrightarrow> unchanged look (expand_node objs v)"
  by (cases v) (simp_all add: unchanged_return unchanged_raise)

lemma unchanged_py_lower: "unchanged look (py_lower v)"
  by (cases v) (simp_all add: unchanged_return unchanged_raise)

lemma unchanged_unpack2: "unchanged look (unpack2 xs)"
  by (cases xs rule: unpack2.cases) (simp_all add: unchanged_return unchanged_raise)

lemma unchanged_ContentTypeFilter_filter:
  assumes "nonmutating look objs db df"
  shows "unchanged look (ContentTypeFilter_filter db self qs v)"
proof -
  from assms have n: "unchanged look (py_total (qs_none db qs))"
    and f: "\<And>kw. unchanged look (qs_filter db qs kw)"
    by (simp_all add: nonmutating_def)
  show ?thesis
    unfolding ContentTypeFilter_filter_def
    by (auto intro!: unchanged_return unchanged_try_except unchanged_bind unchanged_py_lower
        unchanged_unpack2 n f)
qed

lemma unchanged_inherited_filter:
  assumes "nonmutating look objs db df"
  shows "unchanged look (inherited_filter df self qs v)"
  using assms unfolding inherited_filter_def nonmutating_def by blast

lemma unchanged_MultiValueArrayFilter_filter:
  assumes "nonmutating look objs db df"
  shows "unchanged look (MultiValueArrayFilter_filter df self qs v)"
proof -
  from assms have "unchanged look (MultiValueArrayFilter_get_filter_predicate df self u)" for u
    by (simp add: MultiValueArrayFilter_get_filter_predicate_def nonmutating_def unchanged_return)
  with assms show ?thesis
    unfolding MultiValueArrayFilter_filter_def nonmutating_def by blast
qed

lemma unchanged_MultiValueMACAddressFilter_filter:
  assumes "nonmutating look objs db df"
  shows "unchanged look (MultiValueMACAddressFilter_filter db df self qs v)"
proof -
  from assms have n: "unchanged look (py_total (qs_none db qs))"
    by (simp add: nonmutating_def)
  from assms have s: "unchanged look (MultipleChoiceFilter_filter df self
      (MultipleChoiceFilter_get_filter_predicate df self) qs v)"
    unfolding nonmutating_def by blast
  show ?thesis
    unfolding MultiValueMACAddressFilter_filter_def
    by (intro unchanged_try_except s n unchanged_return)
qed

lemma unchanged_TreeNodeMultipleChoiceFilter_filter:
  assumes "nonmutating look objs db df"
  shows "unchanged look (TreeNodeMultipleChoiceFilter_filter objs df self qs v)"
proof -
  from assms have p: "unchanged look (TreeNodeMultipleChoiceFilter_get_filter_predicate df self u)"
    for u
    by (simp add: TreeNodeMultipleChoiceFilter_get_filter_predicate_def nonmutating_def
        unchanged_return)
  with assms have s: "unchanged look (ModelMultipleChoiceFilter_filter df self
      (TreeNodeMultipleChoiceFilter_get_filter_predicate df self) qs u)" for u
    unfolding nonmutating_def by blast
  from assms have i: "unchanged look (py_iter objs v)"
    by (intro unchanged_py_iter) (simp add: nonmutating_def)
  from assms have e: "unchanged look (expand_node objs u)" for u
    by (intro unchanged_expand_node) (simp add: nonmutating_def)
  show ?thesis
    unfolding TreeNodeMultipleChoiceFilter_filter_def
    by (intro unchanged_bind i unchanged_py_map e s)
qed

lemma unchanged_NullableCharFieldFilter_filter:
  assumes "nonmutating look objs db df"
  shows "unchanged look (NullableCharFieldFilter_filter st db df self qs v)"
proof -
  from assms have c: "unchanged look (CharFilter_filter df self qs v)"
    and g: "\<And>kw. unchanged look (get_method df self qs kw)"
    and d: "\<And>q. unchanged look (qs_distinct db q)"
    by (simp_all add: nonmutating_def)
  show ?thesis
    unfolding NullableCharFieldFilter_filter_def
    by (auto intro!: unchanged_bind unchanged_return c g d)
qed

lemma unchanged_NumericArrayFilter_filter:
  assumes "nonmutating look objs db df"
  shows "unchanged look (NumericArrayFilter_filter objs df self qs v)"
proof -
  from assms have b: "unchanged look (py_bool objs v)"
    by (intro unchanged_py_bool) (simp add: nonmutating_def)
  from assms have n: "\<And>u. unchanged look (NumberFilter_filter df self qs u)"
    by (simp add: nonmutating_def)
  show ?thesis
    unfolding NumericArrayFilter_filter_def
    by (intro unchanged_bind b n)
qed

lemma returns_new_ContentTypeFilter_filter:
  assumes "allocating look db df" and "s \<noteq> []"
  shows "returns_new look (ContentTypeFilter_filter db self qs (PyStr s))"
proof -
  from assms(1) have "returns_new look (py_total (qs_none db qs))"
    and "\<And>kw. returns_new look (qs_filter db qs kw)"
    by (simp_all add: allocating_def)
  with assms(2) show ?thesis
    by (simp add: ContentTypeFilter_filter_PyStr split: list.splits)
qed

lemma returns_new_NullableCharFieldFilter_filter:
  assumes nm: "nonmutating look objs db df" and al: "allocating look db df"
  shows "returns_new look
    (NullableCharFieldFilter_filter st db df self qs (PyStr (FILTERS_NULL_CHOICE_VALUE st)))"
  unfolding returns_new_def
proof (intro allI impI)
  fix w r w'
  let ?g = "get_method df self qs [field_name self @ ''__isnull'' \<mapsto> PyBool True]"
  assume "NullableCharFieldFilter_filter st db df self qs
      (PyStr (FILTERS_NULL_CHOICE_VALUE st)) w = (Inr r, w')"
  then obtain r1 w1 where g: "?g w = (Inr r1, w1)"
    and rest: "(if distinct_flag self then qs_distinct db r1 else py_return r1) w1 = (Inr r, w')"
    by (auto simp add: NullableCharFieldFilter_filter_def py_bind_def
        split: prod.splits sum.splits)
  from al have "returns_new look ?g"
    by (simp add: allocating_def)
  with g have g1: "look w r1 = None" "look w1 r1 \<noteq> None"
    by (auto simp add: returns_new_def)
  show "look w r = None \<and> look w' r \<noteq> None"
  proof (cases "distinct_flag self")
    case False
    with rest g1 show ?thesis
      by (simp add: py_return_def)
  next
    case True
    with rest have d: "qs_distinct db r1 w1 = (Inr r, w')"
      by simp
    from al have "returns_new look (qs_distinct db r1)"
      by (simp add: allocating_def)
    with d have d1: "look w1 r = None" "look w' r \<noteq> None"
      by (auto simp add: returns_new_def)
    from nm have "unchanged look ?g"
      by (simp add: nonmutating_def)
    with g have "look w r \<noteq> None \<longrightarrow> look w1 r = look w r"
      by (auto simp add: unchanged_def dest: spec [of _ w])
    with d1 show ?thesis
      by auto
  qed
qed

text \<open>
  Claim C7, as stated, fails: "calling \<open>filter(qs, value)\<close> returns a new queryset reflecting
  the additional predicate". On an empty value \<open>ContentTypeFilter.filter\<close> returns \<open>qs\<close>
  itself: the reference of the queryset it was given, in a world with no new object.
\<close>

theorem ContentTypeFilter_filter_returns_qs_counterexample:
  "ContentTypeFilter_filter demo_orm demo_self 0 (PyStr []) [Base] = (Inr 0, [Base])
   \<and> demo_look [Base] 0 = Some Base"
  by (simp add: ContentTypeFilter_filter_def in_EMPTY_VALUES_def EMPTY_VALUES_def py_return_def
      demo_look_def)

text \<open>
  Claim C7, amended. No \<open>filter\<close> method of the module changes a queryset in place: the
  module's code only calls methods on \<open>qs\<close> and returns their results, so, given that the
  methods of the ORM, of django-filter and of the objects leave existing querysets unchanged,
  every queryset that exists before a call of \<open>filter\<close>, \<open>qs\<close> among them, has the same content
  after it, whether the call returns or raises. Where the module itself applies a condition,
  the result is a new queryset, given that the ORM's methods return new ones:
  \<open>ContentTypeFilter.filter\<close> on a non-empty string and \<open>NullableCharFieldFilter.filter\<close> on
  the null sentinel. On an empty value \<open>ContentTypeFilter.filter\<close> returns \<open>qs\<close> itself.
\<close>

theorem filters_never_mutate:
  "(nonmutating look objs db df \<longrightarrow>
      unchanged look (ContentTypeFilter_filter db self qs v)
      \<and> unchanged look (NullableCharFieldFilter_filter st db df self qs v)
      \<and> unchanged look (NumericArrayFilter_filter objs df self qs v)
      \<and> unchanged look (TreeNodeMultipleChoiceFilter_filter objs df self qs v)
      \<and> unchanged look (MultiValueMACAddressFilter_filter db df self qs v)
      \<and> unchanged look (MultiValueArrayFilter_filter df self qs v)
      \<and> unchanged look (MultiValueCharFilter_filter df self qs v)
      \<and> unchanged look (MultiValueDateFilter_filter df self qs v)
      \<and> unchanged look (MultiValueDateTimeFilter_filter df self qs v)
      \<and> unchanged look (MultiValueNumberFilter_filter df self qs v)
      \<and> unchanged look (MultiValueDecimalFilter_filter df self qs v)
      \<and> unchanged look (MultiValueTimeFilter_filter df self qs v)
      \<and> unchanged look (MultiValueWWNFilter_filter df self qs v))
   \<and> (allocating look db df \<and> s \<noteq> [] \<longrightarrow>
        returns_new look (ContentTypeFilter_filter db self qs (PyStr s)))
   \<and> (nonmutating look objs db df \<and> allocating look db df \<longrightarrow>
        returns_new look
          (NullableCharFieldFilter_filter st db df self qs (PyStr (FILTERS_NULL_CHOICE_VALUE st))))
   \<and> (in_EMPTY_VALUES v \<longrightarrow> ContentTypeFilter_filter db self qs v = py_return qs)"
proof -
  have a: "unchanged look (ContentTypeFilter_filter db self qs v)
      \<and> unchanged look (NullableCharFieldFilter_filter st db df self qs v)
      \<and> unchanged look (NumericArrayFilter_filter objs df self qs v)
      \<and> unchanged look (TreeNodeMultipleChoiceFilter_filter objs df self qs v)
      \<and> unchanged look (MultiValueMACAddressFilter_filter db df self qs v)
      \<and> unchanged look (MultiValueArrayFilter_filter df self qs v)
      \<and> unchanged look (MultiValueCharFilter_filter df self qs v)
      \<and> unchanged look (MultiValueDateFilter_filter df self qs v)
      \<and> unchanged look (MultiValueDateTimeFilter_filter df self qs v)
      \<and> unchanged look (MultiValueNumberFilter_filter df self qs v)
      \<and> unchanged look (MultiValueDecimalFilter_filter df self qs v)
      \<and> unchanged look (MultiValueTimeFilter_filter df self qs v)
      \<and> unchanged look (MultiValueWWNFilter_filter df self qs v)"
    if "nonmutating look objs db df"
    unfolding MultiValueCharFilter_filter_def MultiValueDateFilter_filter_def
      MultiValueDateTimeFilter_filter_def MultiValueNumberFilter_filter_def
      MultiValueDecimalFilter_filter_def MultiValueTimeFilter_filter_def
      MultiValueWWNFilter_filter_def
    using that
    by (intro conjI unchanged_ContentTypeFilter_filter unchanged_NullableCharFieldFilter_filter
        unchanged_NumericArrayFilter_filter unchanged_TreeNodeMultipleChoiceFilter_filter
        unchanged_MultiValueMACAddressFilter_filter unchanged_MultiValueArrayFilter_filter
        unchanged_inherited_filter)
  have b: "returns_new look (ContentTypeFilter_filter db self qs (PyStr s))"
    if "allocating look db df \<and> s \<noteq> []"
    using that by (blast intro: returns_new_ContentTypeFilter_filter)
  have c: "returns_new look
      (NullableCharFieldFilter_filter st db df self qs (PyStr (FILTERS_NULL_CHOICE_VALUE st)))"
    if "nonmutating look objs db df \<and> allocating look db df"
    using that by (blast intro: returns_new_NullableCharFieldFilter_filter)
  have d: "ContentTypeFilter_filter db self qs v = py_return qs" if "in_EMPTY_VALUES v"
    using that by (simp add: ContentTypeFilter_filter_def)
  from a b c d show ?thesis
    by blast
qed

lemma unchanged_demo_new: "unchanged demo_look (py_total (demo_new s))"
  by (simp add: unchanged_def py_total_def demo_new_def demo_look_def nth_append)

lemma returns_new_demo_new: "returns_new demo_look (py_total (demo_new s))"
  by (auto simp add: returns_new_def py_total_def demo_new_def demo_look_def)

lemma unchanged_demo_multiple_choice: "unchanged demo_look (demo_multiple_choice name self p q v)"
  by (simp add: demo_multiple_choice_def unchanged_raise unchanged_demo_new)

lemma nonmutating_demo: "nonmutating demo_look demo_objects demo_orm demo_django_filters"
  by (simp add: nonmutating_def demo_objects_def demo_orm_def demo_django_filters_def
      unchanged_return unchanged_raise unchanged_demo_new unchanged_demo_multiple_choice)

lemma allocating_demo: "allocating demo_look demo_orm demo_django_filters"
  by (simp add: allocating_def demo_orm_def demo_django_filters_def returns_new_demo_new)

text \<open>
  In the instance every method makes a new object: filtering the queryset 0 by \<open>"dcim.site"\<close>
  returns the queryset 1, which did not exist before, and leaves the queryset 0 as it was.
\<close>

theorem filters_never_mutate_witness:
  "nonmutating demo_look demo_objects demo_orm demo_django_filters
   \<and> allocating demo_look demo_orm demo_django_filters
   \<and> ContentTypeFilter_filter demo_orm demo_self 0 (PyStr ''dcim.site'') [Base]
       = (Inr 1, [Base, FilterOf 0
            [''f__app_label'' \<mapsto> PyStr ''dcim'', ''f__model'' \<mapsto> PyStr ''site'']])
   \<and> demo_look (snd (ContentTypeFilter_filter demo_orm demo_self 0 (PyStr ''dcim.site'') [Base])) 0
       = demo_look [Base] 0
   \<and> demo_look [Base] 1 = None
   \<and> in_EMPTY_VALUES (PyNone :: nat pyval)
   \<and> ContentTypeFilter_filter demo_orm demo_self 0 PyNone [Base] = (Inr 0, [Base])"
proof -
  let ?m = "ContentTypeFilter_filter demo_orm demo_self 0 (PyStr ''dcim.site'')"
  note t = filters_never_mutate [of demo_look demo_objects demo_orm demo_django_filters
      demo_self 0 PyNone _ "''dcim.site''"]
  have e: "?m [Base]
       = (Inr 1, [Base, FilterOf 0
            [''f__app_label'' \<mapsto> PyStr ''dcim'', ''f__model'' \<mapsto> PyStr ''site'']])"
    by (simp add: ContentTypeFilter_filter_PyStr split_dcim_site demo_orm_def demo_self_def
        py_total_def demo_new_def)
  have emp: "in_EMPTY_VALUES (PyNone :: nat pyval)"
    by (simp add: in_EMPTY_VALUES_def EMPTY_VALUES_def)
  from filters_never_mutate [of demo_look demo_objects demo_orm demo_django_filters
      demo_self 0 "PyStr ''dcim.site''"] nonmutating_demo
  have "unchanged demo_look ?m"
    by blast
  then have "demo_look [Base] 0 \<noteq> None \<longrightarrow> demo_look (snd (?m [Base])) 0 = demo_look [Base] 0"
    unfolding unchanged_def by blast
  then have 1: "demo_look (snd (?m [Base])) 0 = demo_look [Base] 0"
    by (simp add: demo_look_def)
  from t allocating_demo have "returns_new demo_look ?m"
    by simp
  with e have 2: "demo_look [Base] 1 = None"
    by (auto simp add: returns_new_def)
  from t emp have "ContentTypeFilter_filter demo_orm demo_self 0 PyNone = py_return 0"
    by blast
  then have 3: "ContentTypeFilter_filter demo_orm demo_self 0 PyNone [Base] = (Inr 0, [Base])"
    by (simp add: py_return_def)
  from nonmutating_demo allocating_demo e 1 2 emp 3 show ?thesis
    by simp
qed

end
